theory Spec2Isabelle
  imports Main
begin

section \<open>Python strings and dictionaries used by \<open>platform_detect.py\<close>\<close>

text \<open>
  Strings are \<^typ>\<open>string\<close> (lists of 8-bit characters). The helpers below are the
  fragments of Python's \<open>str\<close> API that the module calls, restricted to ASCII: a byte
  outside \<open>A..Z\<close> is left alone by \<open>str_lower\<close>, and only the ASCII white space
  characters count for \<open>str_strip\<close>.
\<close>

definition lower_char :: "char \<Rightarrow> char" where
  "lower_char c =
     (case map_of (zip ''ABCDEFGHIJKLMNOPQRSTUVWXYZ'' ''abcdefghijklmnopqrstuvwxyz'') c of
        Some d \<Rightarrow> d
      | None \<Rightarrow> c)"

definition str_lower :: "string \<Rightarrow> string" where
  "str_lower s = map lower_char s"

fun startswith :: "string \<Rightarrow> string \<Rightarrow> bool" where
  "startswith s [] = True"
| "startswith [] (p # ps) = False"
| "startswith (x # xs) (p # ps) = (x = p \<and> startswith xs ps)"

text \<open>\<open>str_contains sub s\<close> is Python's \<open>sub in s\<close> on strings.\<close>

fun str_contains :: "string \<Rightarrow> string \<Rightarrow> bool" where
  "str_contains sub [] = (sub = [])"
| "str_contains sub (x # xs) = (startswith (x # xs) sub \<or> str_contains sub xs)"

text \<open>\<open>str_split c s\<close> is \<open>s.split(c)\<close> for a one-character separator.\<close>

fun split_acc :: "char \<Rightarrow> string \<Rightarrow> string \<Rightarrow> string list" where
  "split_acc c acc [] = [rev acc]"
| "split_acc c acc (x # xs) =
     (if x = c then rev acc # split_acc c [] xs else split_acc c (x # acc) xs)"

definition str_split :: "char \<Rightarrow> string \<Rightarrow> string list" where
  "str_split c s = split_acc c [] s"

definition is_space :: "char \<Rightarrow> bool" where
  "is_space c = (c \<in> set [CHR 0x09, CHR 0x0A, CHR 0x0B, CHR 0x0C, CHR 0x0D,
                            CHR 0x1C, CHR 0x1D, CHR 0x1E, CHR 0x1F, CHR 0x20])"

definition strip_chars :: "(char \<Rightarrow> bool) \<Rightarrow> string \<Rightarrow> string" where
  "strip_chars P s = rev (dropWhile P (rev (dropWhile P s)))"

definition str_strip :: "string \<Rightarrow> string" where
  "str_strip s = strip_chars is_space s"

fun str_join :: "string \<Rightarrow> string list \<Rightarrow> string" where
  "str_join sep [] = []"
| "str_join sep [x] = x"
| "str_join sep (x # y # ys) = x @ sep @ str_join sep (y # ys)"

text \<open>\<open>dict_get d k dflt\<close> is \<open>d.get(k, dflt)\<close> on a dictionary literal.\<close>

definition dict_get :: "('k \<times> 'v) list \<Rightarrow> 'k \<Rightarrow> 'v \<Rightarrow> 'v" where
  "dict_get d k dflt = (case map_of d k of Some v \<Rightarrow> v | None \<Rightarrow> dflt)"

text \<open>Truthiness of an optional string: \<open>None\<close> and the empty string are falsy.\<close>

definition truthy :: "string option \<Rightarrow> bool" where
  "truthy v = (case v of None \<Rightarrow> False | Some s \<Rightarrow> s \<noteq> [])"

datatype py_exception =
    CalledProcessError
  | TimeoutExpired
  | FileNotFoundError
  | ValueError
  | IndexError

definition py_index :: "'a list \<Rightarrow> nat \<Rightarrow> py_exception + 'a" where
  "py_index xs i = (if i < length xs then Inr (xs ! i) else Inl IndexError)"

section \<open>The environment prober\<close>

text \<open>
  The process environment is a map from variable names to values (\<open>os.environ\<close>), and
  \<open>PATH\<close> resolution is a function \<open>which\<close> (\<open>shutil.which\<close>) from a command name to
  the path found, if any.
\<close>

type_synonym environ = "string \<rightharpoonup> string"

record tool_table =
  clipboard :: "string list"
  keyboard :: "string list"
  notification :: "string list"

record PlatformInfo =
  display_server :: string
  desktop_env :: string
  is_wayland :: bool
  is_x11 :: bool
  is_kde :: bool
  is_gnome :: bool
  available_tools :: tool_table

definition environ_get :: "environ \<Rightarrow> string \<Rightarrow> string \<Rightarrow> string" where
  "environ_get env k dflt = (case env k of Some v \<Rightarrow> v | None \<Rightarrow> dflt)"

definition detect_display_server :: "environ \<Rightarrow> string" where
  "detect_display_server env =
     (let session_type = str_lower (environ_get env ''XDG_SESSION_TYPE'' '''') in
      if session_type \<in> set [''wayland'', ''x11''] then session_type
      else if truthy (env ''WAYLAND_DISPLAY'') then ''wayland''
      else if truthy (env ''DISPLAY'') then ''x11''
      else ''unknown'')"

definition detect_desktop_environment :: "environ \<Rightarrow> string" where
  "detect_desktop_environment env =
     (let desktop = environ_get env ''XDG_CURRENT_DESKTOP'' '''' in
      if desktop \<noteq> [] then desktop
      else let session = environ_get env ''DESKTOP_SESSION'' '''' in
        if session \<noteq> [] then session
        else if truthy (env ''KDE_FULL_SESSION'') then ''KDE''
        else if truthy (env ''GNOME_DESKTOP_SESSION_ID'') then ''GNOME''
        else ''unknown'')"

definition has_command :: "(string \<Rightarrow> string option) \<Rightarrow> string \<Rightarrow> bool" where
  "has_command which cmd = (which cmd \<noteq> None)"

definition detect_available_tools :: "(string \<Rightarrow> string option) \<Rightarrow> tool_table" where
  "detect_available_tools which =
     \<lparr> clipboard =
         (if has_command which ''wl-copy'' \<and> has_command which ''wl-paste''
          then [''wl-clipboard''] else [])
         @ (if has_command which ''xclip'' then [''xclip''] else [])
         @ (if has_command which ''xsel'' then [''xsel''] else []),
       keyboard =
         (if has_command which ''ydotool'' then [''ydotool''] else [])
         @ (if has_command which ''kdotool'' then [''kdotool''] else [])
         @ (if has_command which ''xdotool'' then [''xdotool''] else [])
         @ (if has_command which ''wtype'' then [''wtype''] else []),
       notification =
         (if has_command which ''notify-send'' then [''notify-send''] else []) \<rparr>"

text \<open>\<open>PlatformInfo.__init__\<close>: the snapshot computed from the environment and \<open>PATH\<close>.\<close>

definition PlatformInfo_init :: "environ \<Rightarrow> (string \<Rightarrow> string option) \<Rightarrow> PlatformInfo" where
  "PlatformInfo_init env which =
     (let ds = detect_display_server env;
          de = detect_desktop_environment env
      in \<lparr> display_server = ds,
           desktop_env = de,
           is_wayland = (ds = ''wayland''),
           is_x11 = (ds = ''x11''),
           is_kde = str_contains ''kde'' (str_lower de),
           is_gnome = str_contains ''gnome'' (str_lower de),
           available_tools = detect_available_tools which \<rparr>)"

section \<open>The tool selector\<close>

definition get_clipboard_tool :: "PlatformInfo \<Rightarrow> string option" where
  "get_clipboard_tool p =
     (if is_wayland p \<and> ''wl-clipboard'' \<in> set (clipboard (available_tools p))
      then Some ''wl-clipboard''
      else if is_x11 p then
        (if ''xclip'' \<in> set (clipboard (available_tools p)) then Some ''xclip''
         else if ''xsel'' \<in> set (clipboard (available_tools p)) then Some ''xsel''
         else None)
      else if ''wl-clipboard'' \<in> set (clipboard (available_tools p))
      then Some ''wl-clipboard''
      else None)"

definition get_keyboard_tool :: "PlatformInfo \<Rightarrow> string option" where
  "get_keyboard_tool p =
     (if ''ydotool'' \<in> set (keyboard (available_tools p)) then Some ''ydotool''
      else if is_kde p \<and> ''kdotool'' \<in> set (keyboard (available_tools p))
      then Some ''kdotool''
      else if is_x11 p \<and> ''xdotool'' \<in> set (keyboard (available_tools p))
      then Some ''xdotool''
      else if is_wayland p \<and> ''wtype'' \<in> set (keyboard (available_tools p))
      then Some ''wtype''
      else None)"

section \<open>External processes\<close>

text \<open>
  One call of \<open>subprocess.run\<close>: the argument vector, the bytes written to the child's
  standard input (if any), the flags, and the timeout in seconds.
\<close>

record invocation =
  argv :: "string list"
  stdin_input :: "string option"
  capture_output :: bool
  text_mode :: bool
  check :: bool
  timeout :: nat

record completed_process =
  returncode :: int
  stdout :: "string option"

text \<open>
  The operations are parametrised by \<open>run\<close>, the behaviour of \<open>subprocess.run\<close>: for
  each call it either returns a completed process or raises. Every operation returns its
  result (or the exception that leaves it) together with the list of calls it made.
\<close>

type_synonym runner = "invocation \<Rightarrow> py_exception + completed_process"

text \<open>
  The \<open>except\<close> clause shared by the four operations:
  \<open>except (subprocess.CalledProcessError, subprocess.TimeoutExpired, FileNotFoundError)\<close>.
\<close>

definition caught :: "py_exception \<Rightarrow> bool" where
  "caught e = (e \<in> set [CalledProcessError, TimeoutExpired, FileNotFoundError])"

text \<open>
  \<open>try: subprocess.run(...); return True  except (...): return False\<close>, with the call
  recorded.
\<close>

definition run_reporting :: "runner \<Rightarrow> invocation \<Rightarrow> (py_exception + bool) \<times> invocation list" where
  "run_reporting run call =
     (case run call of
        Inr r \<Rightarrow> (Inr True, [call])
      | Inl e \<Rightarrow> (if caught e then Inr False else Inl e, [call]))"

text \<open>
  \<open>try: result = subprocess.run(...); return result.stdout  except (...): return None\<close>.
\<close>

definition run_capturing ::
  "runner \<Rightarrow> invocation \<Rightarrow> (py_exception + string option) \<times> invocation list" where
  "run_capturing run call =
     (case run call of
        Inr r \<Rightarrow> (Inr (stdout r), [call])
      | Inl e \<Rightarrow> (if caught e then Inr None else Inl e, [call]))"

definition copy_to_clipboard ::
  "runner \<Rightarrow> PlatformInfo \<Rightarrow> string \<Rightarrow> (py_exception + bool) \<times> invocation list" where
  "copy_to_clipboard run p content =
     (let clipboard_tool = get_clipboard_tool p in
      if \<not> truthy clipboard_tool then (Inr False, [])
      else if clipboard_tool = Some ''wl-clipboard'' then
        run_reporting run
          \<lparr> argv = [''wl-copy'', content], stdin_input = None, capture_output = False,
            text_mode = False, check = True, timeout = 5 \<rparr>
      else if clipboard_tool = Some ''xclip'' then
        run_reporting run
          \<lparr> argv = [''xclip'', ''-selection'', ''clipboard''], stdin_input = Some content,
            capture_output = False, text_mode = False, check = True, timeout = 5 \<rparr>
      else if clipboard_tool = Some ''xsel'' then
        run_reporting run
          \<lparr> argv = [''xsel'', ''--clipboard'', ''--input''], stdin_input = Some content,
            capture_output = False, text_mode = False, check = True, timeout = 5 \<rparr>
      else (Inr False, []))"

definition paste_from_clipboard ::
  "runner \<Rightarrow> PlatformInfo \<Rightarrow> (py_exception + string option) \<times> invocation list" where
  "paste_from_clipboard run p =
     (let clipboard_tool = get_clipboard_tool p in
      if \<not> truthy clipboard_tool then (Inr None, [])
      else if clipboard_tool = Some ''wl-clipboard'' then
        run_capturing run
          \<lparr> argv = [''wl-paste''], stdin_input = None, capture_output = True,
            text_mode = True, check = True, timeout = 5 \<rparr>
      else if clipboard_tool = Some ''xclip'' then
        run_capturing run
          \<lparr> argv = [''xclip'', ''-selection'', ''clipboard'', ''-o''], stdin_input = None,
            capture_output = True, text_mode = True, check = True, timeout = 5 \<rparr>
      else if clipboard_tool = Some ''xsel'' then
        run_capturing run
          \<lparr> argv = [''xsel'', ''--clipboard'', ''--output''], stdin_input = None,
            capture_output = True, text_mode = True, check = True, timeout = 5 \<rparr>
      else (Inr None, []))"

definition type_text ::
  "runner \<Rightarrow> PlatformInfo \<Rightarrow> string \<Rightarrow> (py_exception + bool) \<times> invocation list" where
  "type_text run p content =
     (let keyboard_tool = get_keyboard_tool p in
      if \<not> truthy keyboard_tool then (Inr False, [])
      else if keyboard_tool = Some ''ydotool'' then
        run_reporting run
          \<lparr> argv = [''ydotool'', ''type'', content], stdin_input = None,
            capture_output = False, text_mode = False, check = True, timeout = 10 \<rparr>
      else if keyboard_tool = Some ''kdotool'' then
        run_reporting run
          \<lparr> argv = [''kdotool'', ''type'', content], stdin_input = None,
            capture_output = False, text_mode = False, check = True, timeout = 10 \<rparr>
      else if keyboard_tool = Some ''xdotool'' then
        run_reporting run
          \<lparr> argv = [''xdotool'', ''type'', ''--'', content], stdin_input = None,
            capture_output = False, text_mode = False, check = True, timeout = 10 \<rparr>
      else if keyboard_tool = Some ''wtype'' then
        run_reporting run
          \<lparr> argv = [''wtype'', content], stdin_input = None,
            capture_output = False, text_mode = False, check = True, timeout = 10 \<rparr>
      else (Inr False, []))"

definition simulate_paste_shortcut ::
  "runner \<Rightarrow> PlatformInfo \<Rightarrow> bool \<Rightarrow> (py_exception + bool) \<times> invocation list" where
  "simulate_paste_shortcut run p use_shift =
     (let keyboard_tool = get_keyboard_tool p in
      if keyboard_tool \<noteq> Some ''ydotool'' then (Inr False, [])
      else if use_shift then
        run_reporting run
          \<lparr> argv = [''ydotool'', ''key'', ''42:1'', ''29:1'', ''47:1'', ''47:0'', ''29:0'', ''42:0''],
            stdin_input = None, capture_output = False, text_mode = False,
            check = True, timeout = 2 \<rparr>
      else
        run_reporting run
          \<lparr> argv = [''ydotool'', ''key'', ''29:1'', ''47:1'', ''47:0'', ''29:0''],
            stdin_input = None, capture_output = False, text_mode = False,
            check = True, timeout = 2 \<rparr>)"

subsection \<open>The behaviour of \<open>subprocess.run\<close> on a POSIX system\<close>

text \<open>
  What the child process does once started: it exits with a return code and some output,
  it outlives the timeout, or its binary is missing.
\<close>

datatype proc_outcome = Exited int string | Expired | Missing

text \<open>
  \<open>subprocess_run proc\<close> is the library call over a given behaviour of the child
  processes. An argument with an embedded NUL character is refused with \<open>ValueError\<close>
  before any process is started; with \<open>check=True\<close> a non-zero return code raises
  \<open>CalledProcessError\<close>.
\<close>

definition subprocess_run :: "(invocation \<Rightarrow> proc_outcome) \<Rightarrow> runner" where
  "subprocess_run proc call =
     (if list_ex (\<lambda>a. CHR 0x00 \<in> set a) (argv call) then Inl ValueError
      else case proc call of
        Missing \<Rightarrow> Inl FileNotFoundError
      | Expired \<Rightarrow> Inl TimeoutExpired
      | Exited rc out \<Rightarrow>
          if check call \<and> rc \<noteq> 0 then Inl CalledProcessError
          else Inr \<lparr> returncode = rc,
                     stdout = (if capture_output call then Some out else None) \<rparr>)"

section \<open>Installation instructions\<close>

text \<open>
  \<open>/etc/os-release\<close> is \<open>None\<close> when the file does not exist, and otherwise the list of
  its lines as the file iterator yields them (each with its line terminator).
\<close>

type_synonym os_release = "string list option"

fun distro_scan :: "string list \<Rightarrow> py_exception + string" where
  "distro_scan [] = Inr ''unknown''"
| "distro_scan (line # rest) =
     (if startswith line ''ID='' then
        (case py_index (str_split CHR ''='' line) 1 of
           Inl e \<Rightarrow> Inl e
         | Inr part \<Rightarrow>
             (let distro_id = str_lower (strip_chars (\<lambda>c. c = CHR 0x22) (str_strip part)) in
              if distro_id \<in> set [''arch'', ''manjaro'', ''cachyos''] then Inr ''arch''
              else if distro_id \<in> set [''ubuntu'', ''debian'', ''pop'', ''mint''] then Inr ''debian''
              else if distro_id \<in> set [''fedora'', ''rhel'', ''centos''] then Inr ''fedora''
              else if distro_id \<in> set [''opensuse'', ''sles''] then Inr ''opensuse''
              else distro_scan rest))
      else distro_scan rest)"

definition detect_distro :: "os_release \<Rightarrow> py_exception + string" where
  "detect_distro f = (case f of None \<Rightarrow> Inr ''unknown'' | Some ls \<Rightarrow> distro_scan ls)"

definition package_names :: "(string \<times> (string \<times> string) list) list" where
  "package_names =
     [(''wl-clipboard'',
         [(''arch'', ''wl-clipboard''), (''debian'', ''wl-clipboard''),
          (''fedora'', ''wl-clipboard''), (''opensuse'', ''wl-clipboard'')]),
      (''xclip'',
         [(''arch'', ''xclip''), (''debian'', ''xclip''),
          (''fedora'', ''xclip''), (''opensuse'', ''xclip'')]),
      (''ydotool'',
         [(''arch'', ''ydotool''), (''debian'', ''ydotool''),
          (''fedora'', ''ydotool''), (''opensuse'', ''ydotool'')])]"

definition package_managers :: "(string \<times> string) list" where
  "package_managers =
     [(''arch'', ''sudo pacman -S''),
      (''debian'', ''sudo apt install''),
      (''fedora'', ''sudo dnf install''),
      (''opensuse'', ''sudo zypper install'')]"

definition get_package_cmd :: "string \<Rightarrow> string \<Rightarrow> string" where
  "get_package_cmd distro package =
     (let pkg_name = dict_get (dict_get package_names package []) distro package;
          pkg_mgr = dict_get package_managers distro ''sudo <package-manager> install''
      in pkg_mgr @ '' '' @ pkg_name)"

definition install_lines :: "PlatformInfo \<Rightarrow> string \<Rightarrow> string list" where
  "install_lines p distro =
     (let clipboard_tool = get_clipboard_tool p;
          instructions1 =
            (if \<not> truthy clipboard_tool then
               (if is_wayland p
                then [''Install clipboard tool: '' @ get_package_cmd distro ''wl-clipboard'']
                else [''Install clipboard tool: '' @ get_package_cmd distro ''xclip''])
             else []);
          keyboard_tool = get_keyboard_tool p;
          instructions2 =
            (if \<not> truthy keyboard_tool then
               [''Install keyboard automation: '' @ get_package_cmd distro ''ydotool'']
               @ (if keyboard_tool = Some ''ydotool''
                  then [''Enable ydotool daemon: systemctl --user enable --now ydotool'']
                  else [])
             else [])
      in instructions1 @ instructions2)"

definition get_install_instructions :: "PlatformInfo \<Rightarrow> os_release \<Rightarrow> py_exception + string" where
  "get_install_instructions p f =
     (case detect_distro f of
        Inl e \<Rightarrow> Inl e
      | Inr distro \<Rightarrow>
          (let instructions = install_lines p distro in
           if instructions = [] then Inr ''All required tools are installed!''
           else Inr (str_join [CHR 0x0A] instructions)))"

section \<open>Method calls on the snapshot\<close>

text \<open>
  The public methods of \<open>PlatformInfo\<close> as calls on an object: each returns its result
  and the object as the method body leaves it. No method body assigns to an attribute of
  \<open>self\<close>, so each branch hands back \<open>self\<close>.
\<close>

datatype method_call =
    Get_clipboard_tool
  | Get_keyboard_tool
  | Copy_to_clipboard string
  | Paste_from_clipboard
  | Type_text string
  | Simulate_paste_shortcut bool
  | Get_install_instructions

datatype return_value = Ret_tool "string option" | Ret_bool bool | Ret_str string

definition invoke_method ::
  "runner \<Rightarrow> os_release \<Rightarrow> method_call \<Rightarrow> PlatformInfo \<Rightarrow>
     (py_exception + return_value) \<times> PlatformInfo" where
  "invoke_method run f m self =
     (case m of
        Get_clipboard_tool \<Rightarrow> (Inr (Ret_tool (get_clipboard_tool self)), self)
      | Get_keyboard_tool \<Rightarrow> (Inr (Ret_tool (get_keyboard_tool self)), self)
      | Copy_to_clipboard s \<Rightarrow>
          (map_sum id Ret_bool (fst (copy_to_clipboard run self s)), self)
      | Paste_from_clipboard \<Rightarrow>
          (map_sum id Ret_tool (fst (paste_from_clipboard run self)), self)
      | Type_text s \<Rightarrow> (map_sum id Ret_bool (fst (type_text run self s)), self)
      | Simulate_paste_shortcut b \<Rightarrow>
          (map_sum id Ret_bool (fst (simulate_paste_shortcut run self b)), self)
      | Get_install_instructions \<Rightarrow>
          (map_sum id Ret_str (get_install_instructions self f), self))"

text \<open>
  \<open>get_platform_info\<close>: the module-level singleton. The global \<open>_platform_info\<close> is
  \<open>None\<close> until the first call, which constructs the snapshot; later calls return it.
\<close>

definition get_platform_info ::
  "environ \<Rightarrow> (string \<Rightarrow> string option) \<Rightarrow> PlatformInfo option \<Rightarrow>
     PlatformInfo \<times> PlatformInfo option" where
  "get_platform_info env which g =
     (case g of
        None \<Rightarrow> (let p = PlatformInfo_init env which in (p, Some p))
      | Some p \<Rightarrow> (p, Some p))"

text \<open>The relation between the derived flags and \<open>display_server\<close> set up by \<open>__init__\<close>.\<close>

definition PlatformInfo_inv :: "PlatformInfo \<Rightarrow> bool" where
  "PlatformInfo_inv p =
     (is_wayland p = (display_server p = ''wayland'') \<and>
      is_x11 p = (display_server p = ''x11''))"

section \<open>The documented display-server priority order\<close>

text \<open>
  The classification as the specification words it: \<open>XDG_SESSION_TYPE\<close> if it equals
  "wayland" or "x11"; else "wayland" when \<open>WAYLAND_DISPLAY\<close> is set; else "x11" when
  \<open>DISPLAY\<close> is set; else "unknown".
\<close>

definition spec_display_server :: "environ \<Rightarrow> string" where
  "spec_display_server env =
     (if env ''XDG_SESSION_TYPE'' = Some ''wayland'' then ''wayland''
      else if env ''XDG_SESSION_TYPE'' = Some ''x11'' then ''x11''
      else if env ''WAYLAND_DISPLAY'' \<noteq> None then ''wayland''
      else if env ''DISPLAY'' \<noteq> None then ''x11''
      else ''unknown'')"

text \<open>
  The reading of the environment under which the code follows that order: a variable
  with an empty value counts as unset, and \<open>XDG_SESSION_TYPE\<close> is compared in lower case.
\<close>

definition normalise_environ :: "environ \<Rightarrow> environ" where
  "normalise_environ env k =
     (case env k of
        None \<Rightarrow> None
      | Some v \<Rightarrow>
          if v = [] then None
          else if k = ''XDG_SESSION_TYPE'' then Some (str_lower v)
          else Some v)"

section \<open>What an operation reports\<close>


section \<open>Example systems\<close>

text \<open>\<open>which_of cmds\<close>: \<open>PATH\<close> resolution on a system where exactly \<open>cmds\<close> are installed.\<close>

definition which_of :: "string list \<Rightarrow> string \<Rightarrow> string option" where
  "which_of cmds cmd = (if cmd \<in> set cmds then Some (''/usr/bin/'' @ cmd) else None)"

text \<open>An X11 session where only the Wayland clipboard pair is installed.\<close>

definition x11_with_wl_clipboard :: PlatformInfo where
  "x11_with_wl_clipboard =
     PlatformInfo_init [''XDG_SESSION_TYPE'' \<mapsto> ''x11''] (which_of [''wl-copy'', ''wl-paste''])"

text \<open>An X11 session with \<open>xdotool\<close> and \<open>xclip\<close>.\<close>

definition x11_with_xdotool :: PlatformInfo where
  "x11_with_xdotool =
     PlatformInfo_init [''DISPLAY'' \<mapsto> '':0''] (which_of [''xdotool'', ''xclip''])"

text \<open>A Wayland KDE session with \<open>ydotool\<close> and the Wayland clipboard pair.\<close>

definition wayland_with_ydotool :: PlatformInfo where
  "wayland_with_ydotool =
     PlatformInfo_init
       [''XDG_SESSION_TYPE'' \<mapsto> ''wayland'', ''XDG_CURRENT_DESKTOP'' \<mapsto> ''KDE'']
       (which_of [''ydotool'', ''wl-copy'', ''wl-paste''])"

text \<open>No environment variable set and nothing installed.\<close>

definition bare_system :: PlatformInfo where
  "bare_system = PlatformInfo_init Map.empty (which_of [])"

text \<open>Child processes that all exit with code 0 and no output.\<close>

definition all_succeed :: runner where
  "all_succeed = subprocess_run (\<lambda>c. Exited 0 [])"


text \<open>An environment whose session type is spelled in upper case.\<close>

definition env_upper_case_x11 :: environ where
  "env_upper_case_x11 =
     [''XDG_SESSION_TYPE'' \<mapsto> ''X11'', ''WAYLAND_DISPLAY'' \<mapsto> ''wayland-0'']"

text \<open>An environment where \<open>WAYLAND_DISPLAY\<close> is set, to the empty string.\<close>

definition env_empty_wayland_display :: environ where
  "env_empty_wayland_display = [''WAYLAND_DISPLAY'' \<mapsto> '''', ''DISPLAY'' \<mapsto> '':0'']"

text \<open>A Wayland session in which an X11 display is set as well.\<close>

definition env_wayland_session_x11_display :: environ where
  "env_wayland_session_x11_display =
     [''XDG_SESSION_TYPE'' \<mapsto> ''wayland'', ''DISPLAY'' \<mapsto> '':0'']"

text \<open>The environment variables the prober reads, and the commands it looks up.\<close>

definition probed_variables :: "string list" where
  "probed_variables =
     [''XDG_SESSION_TYPE'', ''WAYLAND_DISPLAY'', ''DISPLAY'', ''XDG_CURRENT_DESKTOP'',
      ''DESKTOP_SESSION'', ''KDE_FULL_SESSION'', ''GNOME_DESKTOP_SESSION_ID'']"

definition candidate_commands :: "string list" where
  "candidate_commands =
     [''wl-copy'', ''wl-paste'', ''xclip'', ''xsel'', ''ydotool'', ''kdotool'', ''xdotool'',
      ''wtype'', ''notify-send'']"

text \<open>The distribution families \<open>_detect_distro\<close> can answer.\<close>

definition known_distros :: "string list" where
  "known_distros = [''arch'', ''debian'', ''fedora'', ''opensuse'', ''unknown'']"

text \<open>Two release files: one of Arch Linux, one of a distribution outside the table.\<close>

definition os_release_arch :: os_release where
  "os_release_arch = Some [''ID=arch\<newline>'', ''BUILD_ID=rolling\<newline>'']"

definition os_release_other :: os_release where
  "os_release_other = Some [''NAME=NixOS\<newline>'', ''ID=nixos\<newline>'']"

section \<open>Facts about the helpers\<close>

lemmas platform_defs =
  PlatformInfo_init_def detect_display_server_def detect_desktop_environment_def
  detect_available_tools_def has_command_def environ_get_def truthy_def
  str_lower_def lower_char_def which_of_def Let_def

lemma x11_with_wl_clipboard_eq:
  "x11_with_wl_clipboard =
     \<lparr> display_server = ''x11'', desktop_env = ''unknown'', is_wayland = False,
       is_x11 = True, is_kde = False, is_gnome = False,
       available_tools = \<lparr> clipboard = [''wl-clipboard''], keyboard = [], notification = [] \<rparr> \<rparr>"
  by (simp add: x11_with_wl_clipboard_def platform_defs)

lemma x11_with_xdotool_eq:
  "x11_with_xdotool =
     \<lparr> display_server = ''x11'', desktop_env = ''unknown'', is_wayland = False,
       is_x11 = True, is_kde = False, is_gnome = False,
       available_tools = \<lparr> clipboard = [''xclip''], keyboard = [''xdotool''], notification = [] \<rparr> \<rparr>"
  by (simp add: x11_with_xdotool_def platform_defs)

lemma wayland_with_ydotool_eq:
  "wayland_with_ydotool =
     \<lparr> display_server = ''wayland'', desktop_env = ''KDE'', is_wayland = True,
       is_x11 = False, is_kde = True, is_gnome = False,
       available_tools = \<lparr> clipboard = [''wl-clipboard''], keyboard = [''ydotool''], notification = [] \<rparr> \<rparr>"
  by (simp add: wayland_with_ydotool_def platform_defs)

lemma bare_system_eq:
  "bare_system =
     \<lparr> display_server = ''unknown'', desktop_env = ''unknown'', is_wayland = False,
       is_x11 = False, is_kde = False, is_gnome = False,
       available_tools = \<lparr> clipboard = [], keyboard = [], notification = [] \<rparr> \<rparr>"
  by (simp add: bare_system_def platform_defs)

lemma get_keyboard_tool_cases:
  "get_keyboard_tool p \<in> {None, Some ''ydotool'', Some ''kdotool'', Some ''xdotool'', Some ''wtype''}"
  by (simp add: get_keyboard_tool_def)

lemma get_keyboard_tool_wayland_with_ydotool:
  "get_keyboard_tool wayland_with_ydotool = Some ''ydotool''"
  by (simp add: wayland_with_ydotool_eq get_keyboard_tool_def)

lemma get_keyboard_tool_x11_with_xdotool:
  "get_keyboard_tool x11_with_xdotool = Some ''xdotool''"
  by (simp add: x11_with_xdotool_eq get_keyboard_tool_def)

lemma all_succeed_apply:
  "all_succeed c =
     (if list_ex (\<lambda>a. CHR 0x00 \<in> set a) (argv c) then Inl ValueError
      else Inr \<lparr> returncode = 0, stdout = (if capture_output c then Some [] else None) \<rparr>)"
  by (simp add: all_succeed_def subprocess_run_def)


section \<open>Clipboard selection\<close>

text \<open>
  What \<open>get_clipboard_tool\<close> returns on a snapshot whose flags agree with its display
  server: the X11 branch is entered on \<open>is_x11\<close> alone, so on X11 the last branch of
  the chain (the Wayland pair as a fallback) is never looked at.
\<close>

lemma get_clipboard_tool_selection:
  assumes "PlatformInfo_inv p"
  shows "get_clipboard_tool p =
     (if display_server p = ''wayland'' then
        (if ''wl-clipboard'' \<in> set (clipboard (available_tools p)) then Some ''wl-clipboard''
         else None)
      else if display_server p = ''x11'' then
        (if ''xclip'' \<in> set (clipboard (available_tools p)) then Some ''xclip''
         else if ''xsel'' \<in> set (clipboard (available_tools p)) then Some ''xsel''
         else None)
      else if ''wl-clipboard'' \<in> set (clipboard (available_tools p)) then Some ''wl-clipboard''
      else None)"
  using assms by (auto simp: PlatformInfo_inv_def get_clipboard_tool_def)

text \<open>
  Claim C1 (clipboard preference order, with the Wayland pair as the fallback for every
  snapshot on which no earlier rule selected a tool, X11 sessions without an X11
  clipboard tool included). The code does not do this on X11: in the session probed
  from \<open>XDG_SESSION_TYPE=x11\<close> with only \<open>wl-copy\<close> and \<open>wl-paste\<close> installed, the
  display server is "x11", the Wayland pair is among the available clipboard tools, and
  \<open>get_clipboard_tool\<close> returns none.
\<close>

theorem get_clipboard_tool_x11_skips_wl_fallback:
  "display_server x11_with_wl_clipboard = ''x11'' \<and>
   ''wl-clipboard'' \<in> set (clipboard (available_tools x11_with_wl_clipboard)) \<and>
   get_clipboard_tool x11_with_wl_clipboard = None"
  by (simp add: x11_with_wl_clipboard_eq get_clipboard_tool_def)

section \<open>Keyboard selection and the paste shortcut\<close>

text \<open>
  Claim C6 (keyboard preference order). On every snapshot whose flags agree with its
  display server, \<open>get_keyboard_tool\<close> returns ydotool whenever it is available,
  whatever the display server and desktop; else kdotool when KDE is detected and kdotool
  is available; else xdotool when the display server is "x11" and xdotool is available;
  else wtype when the display server is "wayland" and wtype is available; else none.
\<close>

theorem get_keyboard_tool_preference:
  assumes "PlatformInfo_inv p"
  shows "get_keyboard_tool p =
     (if ''ydotool'' \<in> set (keyboard (available_tools p)) then Some ''ydotool''
      else if is_kde p \<and> ''kdotool'' \<in> set (keyboard (available_tools p)) then Some ''kdotool''
      else if display_server p = ''x11'' \<and> ''xdotool'' \<in> set (keyboard (available_tools p))
      then Some ''xdotool''
      else if display_server p = ''wayland'' \<and> ''wtype'' \<in> set (keyboard (available_tools p))
      then Some ''wtype''
      else None)"
  using assms by (simp add: PlatformInfo_inv_def get_keyboard_tool_def)

theorem get_keyboard_tool_preference_witness:
  "PlatformInfo_inv wayland_with_ydotool \<and>
   get_keyboard_tool wayland_with_ydotool = Some ''ydotool'' \<and>
   PlatformInfo_inv x11_with_xdotool \<and>
   get_keyboard_tool x11_with_xdotool = Some ''xdotool''"
proof -
  have a: "PlatformInfo_inv wayland_with_ydotool"
    by (simp add: wayland_with_ydotool_eq PlatformInfo_inv_def)
  have b: "PlatformInfo_inv x11_with_xdotool"
    by (simp add: x11_with_xdotool_eq PlatformInfo_inv_def)
  have c: "keyboard (available_tools wayland_with_ydotool) = [''ydotool'']"
    by (simp add: wayland_with_ydotool_eq)
  have d: "keyboard (available_tools x11_with_xdotool) = [''xdotool''] \<and>
           display_server x11_with_xdotool = ''x11''"
    by (simp add: x11_with_xdotool_eq)
  show ?thesis
    using a b get_keyboard_tool_preference [OF a] get_keyboard_tool_preference [OF b]
    by (simp add: c d)
qed

text \<open>
  Claim C3 (the paste shortcut needs ydotool). For every snapshot and every behaviour of
  the external processes, \<open>simulate_paste_shortcut\<close> returns false, without calling any
  process, whenever the selected keyboard tool is not ydotool; and whenever it returns
  true the selected keyboard tool is ydotool.
\<close>

theorem simulate_paste_shortcut_only_ydotool:
  "(get_keyboard_tool p \<noteq> Some ''ydotool'' \<longrightarrow>
      simulate_paste_shortcut run p use_shift = (Inr False, [])) \<and>
   (fst (simulate_paste_shortcut run p use_shift) = Inr True \<longrightarrow>
      get_keyboard_tool p = Some ''ydotool'')"
  by (auto simp: simulate_paste_shortcut_def Let_def)

theorem simulate_paste_shortcut_only_ydotool_witness:
  "get_keyboard_tool x11_with_xdotool = Some ''xdotool'' \<and>
   simulate_paste_shortcut all_succeed x11_with_xdotool True = (Inr False, []) \<and>
   simulate_paste_shortcut all_succeed x11_with_xdotool False = (Inr False, []) \<and>
   fst (simulate_paste_shortcut all_succeed wayland_with_ydotool False) = Inr True \<and>
   get_keyboard_tool wayland_with_ydotool = Some ''ydotool''"
proof -
  have sel: "get_keyboard_tool x11_with_xdotool = Some ''xdotool''"
    by (rule get_keyboard_tool_x11_with_xdotool)
  then have other: "get_keyboard_tool x11_with_xdotool \<noteq> Some ''ydotool''"
    by simp
  have ok: "fst (simulate_paste_shortcut all_succeed wayland_with_ydotool False) = Inr True"
    by (simp add: get_keyboard_tool_wayland_with_ydotool simulate_paste_shortcut_def
        run_reporting_def all_succeed_apply)
  have t1: "simulate_paste_shortcut all_succeed x11_with_xdotool True = (Inr False, [])"
    by (rule mp [OF conjunct1
          [OF simulate_paste_shortcut_only_ydotool [of x11_with_xdotool all_succeed True]] other])
  have t2: "simulate_paste_shortcut all_succeed x11_with_xdotool False = (Inr False, [])"
    by (rule mp [OF conjunct1
          [OF simulate_paste_shortcut_only_ydotool [of x11_with_xdotool all_succeed False]] other])
  have t3: "get_keyboard_tool wayland_with_ydotool = Some ''ydotool''"
    by (rule mp [OF conjunct2
          [OF simulate_paste_shortcut_only_ydotool [of wayland_with_ydotool all_succeed False]] ok])
  show ?thesis
    by (rule conjI sel t1 t2 ok t3)+
qed

section \<open>Clipboard operations without a clipboard tool\<close>

text \<open>
  Claim C4. For every snapshot on which \<open>get_clipboard_tool\<close> returns none,
  \<open>copy_to_clipboard\<close> returns false and \<open>paste_from_clipboard\<close> returns none, and
  the list of external calls of either operation is empty.
\<close>

theorem no_clipboard_tool_no_process:
  assumes "get_clipboard_tool p = None"
  shows "copy_to_clipboard run p s = (Inr False, []) \<and>
         paste_from_clipboard run p = (Inr None, [])"
  using assms by (simp add: copy_to_clipboard_def paste_from_clipboard_def truthy_def)

theorem no_clipboard_tool_no_process_witness:
  "get_clipboard_tool bare_system = None \<and>
   copy_to_clipboard all_succeed bare_system ''hello'' = (Inr False, []) \<and>
   paste_from_clipboard all_succeed bare_system = (Inr None, [])"
proof -
  have none: "get_clipboard_tool bare_system = None"
    by (simp add: bare_system_eq get_clipboard_tool_def)
  with no_clipboard_tool_no_process [OF none, of all_succeed "''hello''"]
  show ?thesis by simp
qed

section \<open>Display-server classification\<close>

lemma str_lower_wayland: "str_lower ''wayland'' = ''wayland''"
  by (simp add: str_lower_def lower_char_def)

lemma str_lower_x11_upper: "str_lower ''X11'' = ''x11''"
  by (simp add: str_lower_def lower_char_def)

lemma detect_display_server_refines:
  "detect_display_server env = spec_display_server (normalise_environ env)"
  by (auto simp: detect_display_server_def spec_display_server_def normalise_environ_def
      environ_get_def truthy_def Let_def str_lower_def split: option.splits)

lemma detect_display_server_wayland_session:
  assumes "env ''XDG_SESSION_TYPE'' = Some ''wayland''"
  shows "detect_display_server env = ''wayland''"
  using assms by (simp add: detect_display_server_def environ_get_def str_lower_wayland)

lemma detect_display_server_depends:
  assumes "env' ''XDG_SESSION_TYPE'' = env ''XDG_SESSION_TYPE''"
    and "env' ''WAYLAND_DISPLAY'' = env ''WAYLAND_DISPLAY''"
    and "env' ''DISPLAY'' = env ''DISPLAY''"
  shows "detect_display_server env' = detect_display_server env"
  using assms by (simp add: detect_display_server_def environ_get_def)

text \<open>
  Claim C2, as the code has it. The classification is a function of the three variables
  \<open>XDG_SESSION_TYPE\<close>, \<open>WAYLAND_DISPLAY\<close> and \<open>DISPLAY\<close> alone, and it follows the
  documented priority order once \<open>XDG_SESSION_TYPE\<close> is read in lower case and a
  variable set to the empty string is read as unset. In particular
  \<open>XDG_SESSION_TYPE=wayland\<close> yields "wayland" whatever the other variables are.
\<close>

theorem detect_display_server_priority:
  "detect_display_server env = spec_display_server (normalise_environ env) \<and>
   (env ''XDG_SESSION_TYPE'' = Some ''wayland'' \<longrightarrow> detect_display_server env = ''wayland'') \<and>
   (env' ''XDG_SESSION_TYPE'' = env ''XDG_SESSION_TYPE'' \<and>
    env' ''WAYLAND_DISPLAY'' = env ''WAYLAND_DISPLAY'' \<and>
    env' ''DISPLAY'' = env ''DISPLAY'' \<longrightarrow>
      detect_display_server env' = detect_display_server env)"
  by (intro conjI impI detect_display_server_refines detect_display_server_wayland_session
      detect_display_server_depends) (erule conjE | assumption)+

theorem detect_display_server_priority_witness:
  "env_wayland_session_x11_display ''XDG_SESSION_TYPE'' = Some ''wayland'' \<and>
   env_wayland_session_x11_display ''DISPLAY'' = Some '':0'' \<and>
   detect_display_server env_wayland_session_x11_display = ''wayland'' \<and>
   detect_display_server (env_wayland_session_x11_display(''HOME'' \<mapsto> ''/root'')) =
     detect_display_server env_wayland_session_x11_display"
proof -
  have a: "env_wayland_session_x11_display ''XDG_SESSION_TYPE'' = Some ''wayland''"
    by (simp add: env_wayland_session_x11_display_def)
  have b: "env_wayland_session_x11_display ''DISPLAY'' = Some '':0''"
    by (simp add: env_wayland_session_x11_display_def)
  have c: "detect_display_server env_wayland_session_x11_display = ''wayland''"
    by (rule mp [OF conjunct1 [OF conjunct2
          [OF detect_display_server_priority
             [of env_wayland_session_x11_display env_wayland_session_x11_display]]] a])
  have same:
    "(env_wayland_session_x11_display(''HOME'' \<mapsto> ''/root'')) ''XDG_SESSION_TYPE'' =
       env_wayland_session_x11_display ''XDG_SESSION_TYPE'' \<and>
     (env_wayland_session_x11_display(''HOME'' \<mapsto> ''/root'')) ''WAYLAND_DISPLAY'' =
       env_wayland_session_x11_display ''WAYLAND_DISPLAY'' \<and>
     (env_wayland_session_x11_display(''HOME'' \<mapsto> ''/root'')) ''DISPLAY'' =
       env_wayland_session_x11_display ''DISPLAY''"
    by simp
  have d: "detect_display_server (env_wayland_session_x11_display(''HOME'' \<mapsto> ''/root'')) =
             detect_display_server env_wayland_session_x11_display"
    by (rule mp [OF conjunct2 [OF conjunct2
          [OF detect_display_server_priority
             [where env = env_wayland_session_x11_display
                and env' = "env_wayland_session_x11_display(''HOME'' \<mapsto> ''/root'')"]]] same])
  show ?thesis by (rule conjI a b c d)+
qed

text \<open>
  Claim C2, as it is stated (\<open>XDG_SESSION_TYPE\<close> counts only when it equals "wayland" or
  "x11"; a display variable counts when it is set), fails on two environments. With
  \<open>XDG_SESSION_TYPE=X11\<close> and \<open>WAYLAND_DISPLAY=wayland-0\<close> the code answers "x11" where
  the stated order gives "wayland"; with \<open>WAYLAND_DISPLAY\<close> set to the empty string and
  \<open>DISPLAY=:0\<close> the code answers "x11" where the stated order gives "wayland".
\<close>

theorem detect_display_server_not_documented_order:
  "detect_display_server env_upper_case_x11 = ''x11'' \<and>
   spec_display_server env_upper_case_x11 = ''wayland'' \<and>
   detect_display_server env_empty_wayland_display = ''x11'' \<and>
   spec_display_server env_empty_wayland_display = ''wayland''"
proof -
  have a: "detect_display_server env_upper_case_x11 = ''x11''"
    by (simp add: detect_display_server_def env_upper_case_x11_def environ_get_def
        str_lower_x11_upper)
  have b: "spec_display_server env_upper_case_x11 = ''wayland''"
    by (simp add: spec_display_server_def env_upper_case_x11_def)
  have c: "detect_display_server env_empty_wayland_display = ''x11''"
    by (simp add: detect_display_server_def env_empty_wayland_display_def environ_get_def
        truthy_def str_lower_def)
  have d: "spec_display_server env_empty_wayland_display = ''wayland''"
    by (simp add: spec_display_server_def env_empty_wayland_display_def)
  show ?thesis by (rule conjI a b c d)+
qed

section \<open>Method calls leave the snapshot alone\<close>

lemma invoke_method_self: "snd (invoke_method run f m p) = p"
  by (cases m) (simp_all add: invoke_method_def)

lemma invoke_get_clipboard_tool:
  "fst (invoke_method run f Get_clipboard_tool p) = Inr (Ret_tool (get_clipboard_tool p))"
  by (simp add: invoke_method_def)

lemma invoke_get_keyboard_tool:
  "fst (invoke_method run f Get_keyboard_tool p) = Inr (Ret_tool (get_keyboard_tool p))"
  by (simp add: invoke_method_def)

lemma PlatformInfo_init_inv: "PlatformInfo_inv (PlatformInfo_init env which)"
  by (simp add: PlatformInfo_inv_def PlatformInfo_init_def Let_def)

lemma PlatformInfo_inv_exclusive:
  assumes "PlatformInfo_inv p"
  shows "\<not> (is_wayland p \<and> is_x11 p)"
  using assms by (auto simp: PlatformInfo_inv_def)

lemma get_platform_info_once:
  "fst (get_platform_info env' which' (snd (get_platform_info env which g))) =
     fst (get_platform_info env which g)"
  by (cases g) (simp_all add: get_platform_info_def Let_def)

lemma get_platform_info_first:
  "get_platform_info env which None = (PlatformInfo_init env which, Some (PlatformInfo_init env which))"
  by (simp add: get_platform_info_def Let_def)

lemma get_clipboard_tool_reads:
  assumes "is_wayland q = is_wayland p" and "is_x11 q = is_x11 p"
    and "set (clipboard (available_tools q)) = set (clipboard (available_tools p))"
  shows "get_clipboard_tool q = get_clipboard_tool p"
  using assms by (simp add: get_clipboard_tool_def)

lemma get_keyboard_tool_reads:
  assumes "is_wayland q = is_wayland p" and "is_x11 q = is_x11 p" and "is_kde q = is_kde p"
    and "set (keyboard (available_tools q)) = set (keyboard (available_tools p))"
  shows "get_keyboard_tool q = get_keyboard_tool p"
  using assms by (simp add: get_keyboard_tool_def)

text \<open>
  Claim C8 (selection is deterministic and idempotent). Calling \<open>get_clipboard_tool\<close>
  twice on a snapshot gives the same result both times, whatever the external world does
  between the calls, and likewise \<open>get_keyboard_tool\<close>; each call leaves the snapshot as
  it found it, and the result is the selector's value on that snapshot.
\<close>

theorem tool_selection_deterministic:
  "fst (invoke_method run' f' Get_clipboard_tool
         (snd (invoke_method run f Get_clipboard_tool p))) =
     fst (invoke_method run f Get_clipboard_tool p) \<and>
   fst (invoke_method run' f' Get_keyboard_tool
         (snd (invoke_method run f Get_keyboard_tool p))) =
     fst (invoke_method run f Get_keyboard_tool p) \<and>
   snd (invoke_method run f Get_clipboard_tool p) = p \<and>
   snd (invoke_method run f Get_keyboard_tool p) = p \<and>
   fst (invoke_method run f Get_clipboard_tool p) = Inr (Ret_tool (get_clipboard_tool p)) \<and>
   fst (invoke_method run f Get_keyboard_tool p) = Inr (Ret_tool (get_keyboard_tool p))"
  by (simp add: invoke_method_self invoke_get_clipboard_tool invoke_get_keyboard_tool)

text \<open>
  Claim C10 (the flags agree with the display server). Every snapshot built by
  \<open>__init__\<close> has \<open>is_wayland\<close> exactly when \<open>display_server\<close> is "wayland" and
  \<open>is_x11\<close> exactly when it is "x11", so the two flags are never both true; every method
  call returns the snapshot unchanged and so preserves this; and \<open>get_platform_info\<close>
  constructs the snapshot on its first call and hands the same one back afterwards.
\<close>

theorem PlatformInfo_invariant:
  "PlatformInfo_inv (PlatformInfo_init env which) \<and>
   \<not> (is_wayland (PlatformInfo_init env which) \<and> is_x11 (PlatformInfo_init env which)) \<and>
   (PlatformInfo_inv p \<longrightarrow> \<not> (is_wayland p \<and> is_x11 p)) \<and>
   snd (invoke_method run f m p) = p \<and>
   (PlatformInfo_inv p \<longrightarrow> PlatformInfo_inv (snd (invoke_method run f m p))) \<and>
   fst (get_platform_info env which None) = PlatformInfo_init env which \<and>
   fst (get_platform_info env' which' (snd (get_platform_info env which g))) =
     fst (get_platform_info env which g)"
proof -
  have a: "PlatformInfo_inv (PlatformInfo_init env which)"
    by (rule PlatformInfo_init_inv)
  have b: "\<not> (is_wayland (PlatformInfo_init env which) \<and> is_x11 (PlatformInfo_init env which))"
    by (rule PlatformInfo_inv_exclusive [OF a])
  have c: "PlatformInfo_inv p \<longrightarrow> \<not> (is_wayland p \<and> is_x11 p)"
    by (rule impI) (rule PlatformInfo_inv_exclusive)
  have d: "snd (invoke_method run f m p) = p"
    by (rule invoke_method_self)
  have e: "PlatformInfo_inv p \<longrightarrow> PlatformInfo_inv (snd (invoke_method run f m p))"
    by (simp add: invoke_method_self)
  have f: "fst (get_platform_info env which None) = PlatformInfo_init env which"
    by (simp add: get_platform_info_first)
  show ?thesis
    by (rule conjI a b c d e f get_platform_info_once)+
qed

theorem PlatformInfo_invariant_witness:
  "PlatformInfo_inv wayland_with_ydotool \<and>
   is_wayland wayland_with_ydotool \<and>
   \<not> is_x11 wayland_with_ydotool \<and>
   PlatformInfo_inv (snd (invoke_method all_succeed None (Type_text ''hi'') wayland_with_ydotool))"
proof -
  note th = PlatformInfo_invariant
    [where p = wayland_with_ydotool and run = all_succeed and f = None and m = "Type_text ''hi''"
       and env = Map.empty and which = "which_of []" and env' = Map.empty and which' = "which_of []"
       and g = None]
  have a: "PlatformInfo_inv wayland_with_ydotool"
    by (simp add: wayland_with_ydotool_eq PlatformInfo_inv_def)
  have b: "is_wayland wayland_with_ydotool"
    by (simp add: wayland_with_ydotool_eq)
  have nb: "\<not> (is_wayland wayland_with_ydotool \<and> is_x11 wayland_with_ydotool)"
    by (rule mp [OF conjunct1 [OF conjunct2 [OF conjunct2 [OF th]]] a])
  have c: "\<not> is_x11 wayland_with_ydotool"
    using nb b by blast
  have d: "PlatformInfo_inv (snd (invoke_method all_succeed None (Type_text ''hi'') wayland_with_ydotool))"
    by (rule mp [OF conjunct1 [OF conjunct2 [OF conjunct2 [OF conjunct2 [OF conjunct2 [OF th]]]]] a])
  show ?thesis by (rule conjI a b c d)+
qed

section \<open>External failures and timeouts\<close>




















section \<open>Installation instructions: the distribution and the lines\<close>

lemma startswith_append:
  "startswith s p \<Longrightarrow> s = p @ drop (length p) s"
  by (induction s p rule: startswith.induct) auto

lemma length_split_acc:
  "length (split_acc c acc s) = Suc (length (filter (\<lambda>x. x = c) s))"
  by (induction s arbitrary: acc) auto

lemma py_index_id_line:
  assumes "startswith line ''ID=''"
  shows "\<exists>part. py_index (str_split CHR ''='' line) 1 = Inr part"
proof -
  from startswith_append [OF assms] obtain r where r: "line = ''ID='' @ r"
    by blast
  have "1 < length (str_split CHR ''='' line)"
    by (simp add: str_split_def length_split_acc r)
  then show ?thesis
    by (simp add: py_index_def)
qed

lemma distro_scan_known: "\<exists>d. d \<in> set known_distros \<and> distro_scan ls = Inr d"
proof (induction ls)
  case Nil
  show ?case by (simp add: known_distros_def)
next
  case (Cons line rest)
  show ?case
  proof (cases "startswith line ''ID=''")
    case False
    with Cons show ?thesis by simp
  next
    case True
    from py_index_id_line [OF True] obtain part
      where part: "py_index (str_split CHR ''='' line) 1 = Inr part" by blast
    from Cons obtain d where d: "d \<in> set known_distros" "distro_scan rest = Inr d"
      by blast
    show ?thesis
      using True part d by (simp add: Let_def known_distros_def)
  qed
qed

lemma detect_distro_known: "\<exists>d. d \<in> set known_distros \<and> detect_distro f = Inr d"
proof (cases f)
  case None
  then show ?thesis by (simp add: detect_distro_def known_distros_def)
next
  case (Some ls)
  with distro_scan_known [of ls] show ?thesis by (simp add: detect_distro_def)
qed

lemma str_contains_head:
  "str_contains (c # cs) s \<Longrightarrow> c \<in> set s"
  by (induction s) auto

lemma set_str_join:
  "set (str_join sep xs) \<subseteq> set sep \<union> (\<Union>x\<in>set xs. set x)"
  by (induction sep xs rule: str_join.induct) auto

lemma package_manager_no_E:
  assumes "d \<in> set known_distros"
  shows "CHR ''E'' \<notin> set (dict_get package_managers d ''sudo <package-manager> install'')"
  using assms
  by (auto simp: known_distros_def dict_get_def package_managers_def)

lemma package_name_no_E:
  assumes "d \<in> set known_distros"
    and "pkg \<in> set [''wl-clipboard'', ''xclip'', ''ydotool'']"
  shows "CHR ''E'' \<notin> set (dict_get (dict_get package_names pkg []) d pkg)"
  using assms
  by (auto simp: known_distros_def dict_get_def package_names_def)

lemma get_package_cmd_no_E:
  assumes "d \<in> set known_distros"
    and "pkg \<in> set [''wl-clipboard'', ''xclip'', ''ydotool'']"
  shows "CHR ''E'' \<notin> set (get_package_cmd d pkg)"
  using package_manager_no_E [OF assms(1)] package_name_no_E [OF assms]
  by (simp add: get_package_cmd_def Let_def)

lemma falsy_not_ydotool: "\<not> truthy k \<Longrightarrow> k \<noteq> Some ''ydotool''"
  by (auto simp: truthy_def)

lemma install_lines_eq:
  "install_lines p d =
     (if \<not> truthy (get_clipboard_tool p)
      then [''Install clipboard tool: '' @
              get_package_cmd d (if is_wayland p then ''wl-clipboard'' else ''xclip'')]
      else [])
     @ (if \<not> truthy (get_keyboard_tool p)
        then [''Install keyboard automation: '' @ get_package_cmd d ''ydotool'']
        else [])"
  using falsy_not_ydotool [of "get_keyboard_tool p"]
  by (simp add: install_lines_def Let_def)

lemma install_lines_no_E:
  assumes "d \<in> set known_distros" and "l \<in> set (install_lines p d)"
  shows "CHR ''E'' \<notin> set l"
proof -
  have w: "CHR ''E'' \<notin> set (get_package_cmd d ''wl-clipboard'')"
    by (rule get_package_cmd_no_E [OF assms(1)]) simp
  have x: "CHR ''E'' \<notin> set (get_package_cmd d ''xclip'')"
    by (rule get_package_cmd_no_E [OF assms(1)]) simp
  have y: "CHR ''E'' \<notin> set (get_package_cmd d ''ydotool'')"
    by (rule get_package_cmd_no_E [OF assms(1)]) simp
  from assms(2) show ?thesis
    using w x y by (auto simp: install_lines_eq split: if_splits)
qed

lemma rendered_no_E:
  assumes "d \<in> set known_distros"
  shows "CHR ''E'' \<notin> set (str_join [CHR 0x0A] (install_lines p d))"
proof
  assume "CHR ''E'' \<in> set (str_join [CHR 0x0A] (install_lines p d))"
  with set_str_join [of "[CHR 0x0A]" "install_lines p d"]
  have "CHR ''E'' \<in> set [CHR 0x0A] \<union> (\<Union>x\<in>set (install_lines p d). set x)"
    by blast
  then obtain l where "l \<in> set (install_lines p d)" "CHR ''E'' \<in> set l"
    by auto
  with install_lines_no_E [OF assms] show False by blast
qed

lemma all_installed_no_E: "CHR ''E'' \<notin> set ''All required tools are installed!''"
  by simp

text \<open>
  Claim C9 (the daemon instruction is never printed). For every snapshot and every
  content of the release file, \<open>get_install_instructions\<close> returns a string, and that
  string does not contain "Enable ydotool daemon": the line is appended only if the
  keyboard tool is "ydotool", inside the branch taken only when no keyboard tool is
  selected.
\<close>

theorem no_daemon_instruction:
  "\<exists>s. get_install_instructions p f = Inr s \<and> \<not> str_contains ''Enable ydotool daemon'' s"
proof -
  from detect_distro_known [of f] obtain d
    where d: "d \<in> set known_distros" "detect_distro f = Inr d" by blast
  let ?s = "if install_lines p d = [] then ''All required tools are installed!''
            else str_join [CHR 0x0A] (install_lines p d)"
  have eq: "get_install_instructions p f = Inr ?s"
    by (simp add: get_install_instructions_def d(2) Let_def)
  have "CHR ''E'' \<notin> set ?s"
    using rendered_no_E [OF d(1), of p] all_installed_no_E by simp
  then have "\<not> str_contains ''Enable ydotool daemon'' ?s"
    using str_contains_head [of "CHR ''E''" "''nable ydotool daemon''" ?s] by auto
  with eq show ?thesis by blast
qed

section \<open>The scenario with no signal at all\<close>

lemma PlatformInfo_init_bare:
  assumes "list_all (\<lambda>k. env k = None) probed_variables"
    and "list_all (\<lambda>c. which c = None) candidate_commands"
  shows "PlatformInfo_init env which =
     \<lparr> display_server = ''unknown'', desktop_env = ''unknown'', is_wayland = False,
       is_x11 = False, is_kde = False, is_gnome = False,
       available_tools = \<lparr> clipboard = [], keyboard = [], notification = [] \<rparr> \<rparr>"
  using assms
  by (simp add: probed_variables_def candidate_commands_def PlatformInfo_init_def
      detect_display_server_def detect_desktop_environment_def detect_available_tools_def
      has_command_def environ_get_def truthy_def str_lower_def lower_char_def Let_def)

lemma get_package_cmd_unknown_xclip:
  "get_package_cmd ''unknown'' ''xclip'' = ''sudo <package-manager> install xclip''"
  by (simp add: get_package_cmd_def dict_get_def package_names_def package_managers_def)

lemma get_package_cmd_unknown_ydotool:
  "get_package_cmd ''unknown'' ''ydotool'' = ''sudo <package-manager> install ydotool''"
  by (simp add: get_package_cmd_def dict_get_def package_names_def package_managers_def)

lemma get_package_cmd_arch_xclip:
  "get_package_cmd ''arch'' ''xclip'' = ''sudo pacman -S xclip''"
  by (simp add: get_package_cmd_def dict_get_def package_names_def package_managers_def)

lemma get_package_cmd_arch_ydotool:
  "get_package_cmd ''arch'' ''ydotool'' = ''sudo pacman -S ydotool''"
  by (simp add: get_package_cmd_def dict_get_def package_names_def package_managers_def)

lemma get_clipboard_tool_bare_system: "get_clipboard_tool bare_system = None"
  by (simp add: bare_system_eq get_clipboard_tool_def)

lemma get_keyboard_tool_bare_system: "get_keyboard_tool bare_system = None"
  by (simp add: bare_system_eq get_keyboard_tool_def)

lemma is_wayland_bare_system: "\<not> is_wayland bare_system"
  by (simp add: bare_system_eq)

lemma install_lines_bare_system:
  "install_lines bare_system d =
     [''Install clipboard tool: '' @ get_package_cmd d ''xclip'',
      ''Install keyboard automation: '' @ get_package_cmd d ''ydotool'']"
  by (simp add: install_lines_def get_clipboard_tool_bare_system get_keyboard_tool_bare_system
      is_wayland_bare_system truthy_def)

lemma get_install_instructions_bare_system:
  assumes "detect_distro f = Inr d"
  shows "get_install_instructions bare_system f =
     Inr (''Install clipboard tool: '' @ get_package_cmd d ''xclip'' @ [CHR 0x0A] @
          ''Install keyboard automation: '' @ get_package_cmd d ''ydotool'')"
  by (simp add: get_install_instructions_def assms install_lines_bare_system)

lemma detect_distro_arch: "detect_distro os_release_arch = Inr ''arch''"
  unfolding os_release_arch_def by code_simp

lemma detect_distro_other: "detect_distro os_release_other = Inr ''unknown''"
  unfolding os_release_other_def by code_simp

lemma detect_distro_missing: "detect_distro None = Inr ''unknown''"
  by (simp add: detect_distro_def)

lemma PlatformInfo_init_bare_system:
  assumes "list_all (\<lambda>k. env k = None) probed_variables"
    and "list_all (\<lambda>c. which c = None) candidate_commands"
  shows "PlatformInfo_init env which = bare_system"
  by (simp only: PlatformInfo_init_bare [OF assms] bare_system_eq)

lemma display_server_bare_system: "display_server bare_system = ''unknown''"
  by (simp add: bare_system_eq)

lemma desktop_env_bare_system: "desktop_env bare_system = ''unknown''"
  by (simp add: bare_system_eq)

lemma generic_instructions:
  assumes "detect_distro f = Inr ''unknown''"
  shows "get_install_instructions bare_system f =
     Inr ''Install clipboard tool: sudo <package-manager> install xclip\<newline>Install keyboard automation: sudo <package-manager> install ydotool''"
  by (simp add: get_install_instructions_bare_system [OF assms]
      get_package_cmd_unknown_xclip get_package_cmd_unknown_ydotool)

text \<open>
  Claim C7, as the code has it. When none of the probed environment variables is set,
  none of the candidate commands resolves in \<open>PATH\<close>, and the distribution is detected
  as "unknown" (no release file, or none of its \<open>ID=\<close> lines names a known family), the
  snapshot has display server "unknown" and desktop "unknown", both selectors return
  none, and the instructions list the clipboard and the keyboard tool with the generic
  package-manager command.
\<close>

theorem no_signals_scenario:
  assumes "list_all (\<lambda>k. env k = None) probed_variables"
    and "list_all (\<lambda>c. which c = None) candidate_commands"
    and "detect_distro f = Inr ''unknown''"
  shows "display_server (PlatformInfo_init env which) = ''unknown'' \<and>
         desktop_env (PlatformInfo_init env which) = ''unknown'' \<and>
         get_clipboard_tool (PlatformInfo_init env which) = None \<and>
         get_keyboard_tool (PlatformInfo_init env which) = None \<and>
         get_install_instructions (PlatformInfo_init env which) f =
           Inr ''Install clipboard tool: sudo <package-manager> install xclip\<newline>Install keyboard automation: sudo <package-manager> install ydotool''"
  unfolding PlatformInfo_init_bare_system [OF assms(1) assms(2)]
  by (rule conjI display_server_bare_system desktop_env_bare_system
      get_clipboard_tool_bare_system get_keyboard_tool_bare_system
      generic_instructions [OF assms(3)])+

theorem no_signals_scenario_witness:
  "list_all (\<lambda>k. Map.empty k = (None :: string option)) probed_variables \<and>
   list_all (\<lambda>c. which_of [] c = None) candidate_commands \<and>
   detect_distro os_release_other = Inr ''unknown'' \<and>
   display_server (PlatformInfo_init Map.empty (which_of [])) = ''unknown'' \<and>
   get_keyboard_tool (PlatformInfo_init Map.empty (which_of [])) = None \<and>
   get_install_instructions (PlatformInfo_init Map.empty (which_of [])) os_release_other =
     Inr ''Install clipboard tool: sudo <package-manager> install xclip\<newline>Install keyboard automation: sudo <package-manager> install ydotool''"
proof -
  have a: "list_all (\<lambda>k. Map.empty k = (None :: string option)) probed_variables"
    by (simp add: probed_variables_def)
  have b: "list_all (\<lambda>c. which_of [] c = None) candidate_commands"
    by (simp add: candidate_commands_def which_of_def)
  note th = no_signals_scenario [OF a b detect_distro_other]
  show ?thesis
    by (rule conjI a b detect_distro_other conjunct1 [OF th]
        conjunct1 [OF conjunct2 [OF conjunct2 [OF conjunct2 [OF th]]]]
        conjunct2 [OF conjunct2 [OF conjunct2 [OF conjunct2 [OF th]]]])+
qed

text \<open>
  Claim C7, as it is stated (the generic command form follows from the environment and
  \<open>PATH\<close> alone), fails on a machine whose release file says \<open>ID=arch\<close>: with no
  variable set and nothing installed, the instructions use \<open>sudo pacman -S\<close>.
\<close>

theorem known_distro_instructions_not_generic:
  "display_server bare_system = ''unknown'' \<and>
   desktop_env bare_system = ''unknown'' \<and>
   get_clipboard_tool bare_system = None \<and>
   get_keyboard_tool bare_system = None \<and>
   get_install_instructions bare_system os_release_arch =
     Inr ''Install clipboard tool: sudo pacman -S xclip\<newline>Install keyboard automation: sudo pacman -S ydotool''"
proof -
  have a: "get_install_instructions bare_system os_release_arch =
     Inr ''Install clipboard tool: sudo pacman -S xclip\<newline>Install keyboard automation: sudo pacman -S ydotool''"
    by (simp add: get_install_instructions_bare_system [OF detect_distro_arch]
        get_package_cmd_arch_xclip get_package_cmd_arch_ydotool)
  show ?thesis
    by (rule conjI display_server_bare_system desktop_env_bare_system
        get_clipboard_tool_bare_system get_keyboard_tool_bare_system a)+
qed

end
